theory Spec2Isabelle
  imports Main
begin

section \<open>Data model\<close>

text \<open>
  The development embeds the authentication routes of \<^verbatim>\<open>src/server.js\<close> (the current
  revision, with the \<^verbatim>\<open>MONGO_URI\<close> and \<^verbatim>\<open>SECRET_KEY\<close> gates): \<^verbatim>\<open>authenticateJWT\<close>,
  \<^verbatim>\<open>POST /register\<close>, \<^verbatim>\<open>POST /login\<close> and \<^verbatim>\<open>GET /getUser\<close>. A handler is a function
  from the environment, the libraries, the store and the request to the response (and
  the new store, for the one handler that writes). The store is a reachable MongoDB
  collection: a query returns its result, and the only exceptions are the ones that
  \<^verbatim>\<open>bcrypt\<close> and the schema raise.
\<close>

text \<open>
  JSON values that occur in the responses of these routes. An ObjectId is an abstract
  identifier, modelled as a natural number.
\<close>

datatype json = JString string | JId nat

type_synonym body = "(string \<times> json) list"

text \<open>\<^verbatim>\<open>res.status(n).json(obj)\<close>; \<^verbatim>\<open>res.json(obj)\<close> alone has status 200.\<close>

datatype response = Json nat body

fun status :: "response \<Rightarrow> nat" where
  "status (Json n b) = n"

fun body_keys :: "response \<Rightarrow> string list" where
  "body_keys (Json n b) = map fst b"

text \<open>
  A document of the \<^verbatim>\<open>User\<close> collection: \<^verbatim>\<open>_id\<close>, \<^verbatim>\<open>username\<close>, \<^verbatim>\<open>password\<close> (the bcrypt
  hash) and \<^verbatim>\<open>email\<close>.
\<close>

record user =
  uid :: nat
  username :: string
  password :: string
  email :: string

text \<open>
  The collection, in insertion order, together with the source of fresh \<^verbatim>\<open>_id\<close> values.
\<close>

record store =
  users :: "user list"
  next_id :: nat

text \<open>
  \<^verbatim>\<open>req.body\<close> of the two POST routes. A field that the client left out is \<^verbatim>\<open>undefined\<close>
  (\<open>None\<close>); a field that is present is a string.
\<close>

record register_body =
  reg_username :: "string option"
  reg_password :: "string option"
  reg_email :: "string option"

record login_body =
  login_username :: "string option"
  login_password :: "string option"

text \<open>The payload that \<^verbatim>\<open>/login\<close> signs and that \<^verbatim>\<open>jwt.verify\<close> hands back as \<^verbatim>\<open>decoded\<close>.\<close>

record claims =
  userID :: nat
  claim_username :: string
  claim_email :: string

text \<open>The two environment variables the routes read.\<close>

record process_env =
  SECRET_KEY :: "string option"
  MONGO_URI :: "string option"

text \<open>
  The third-party libraries are parameters of the model.
  \<^item> \<open>bcrypt_hash data rounds\<close> and \<open>bcrypt_compare data hash\<close>, on string data;
  \<^item> \<open>jwt_sign payload secret expiresIn iat\<close>: the token signed at clock time \<open>iat\<close>
    (seconds) that expires \<open>expiresIn\<close> seconds later;
  \<^item> \<open>jwt_verify token secret clock\<close>: the decoded payload, or \<open>None\<close> for the \<^verbatim>\<open>err\<close>
    of the callback.
\<close>

record libs =
  bcrypt_hash :: "string \<Rightarrow> nat \<Rightarrow> string"
  bcrypt_compare :: "string \<Rightarrow> string \<Rightarrow> bool"
  jwt_sign :: "claims \<Rightarrow> string \<Rightarrow> nat \<Rightarrow> nat \<Rightarrow> string"
  jwt_verify :: "string \<Rightarrow> string \<Rightarrow> nat \<Rightarrow> claims option"

text \<open>What a rejected promise or a thrown exception carries into a \<^verbatim>\<open>catch\<close> block.\<close>

datatype exn = ArgumentsRequired | ValidationError | DuplicateKey

section \<open>Configuration\<close>

text \<open>JavaScript truthiness of a value that is a string or \<^verbatim>\<open>undefined\<close>.\<close>

definition truthy :: "string option \<Rightarrow> bool" where
  "truthy v = (case v of None \<Rightarrow> False | Some s \<Rightarrow> s \<noteq> [])"

text \<open>\<^verbatim>\<open>const secret_key = process.env.SECRET_KEY || ""\<close>\<close>

definition secret_key :: "process_env \<Rightarrow> string" where
  "secret_key env = (if truthy (SECRET_KEY env) then the (SECRET_KEY env) else [])"

text \<open>
  Process start: a missing secret only logs a warning ("don't crash if missing so Render
  can boot"); the process exits with code 1 when \<^verbatim>\<open>MONGO_URI\<close> is set and
  \<^verbatim>\<open>connectDB()\<close> rejects (\<open>connected\<close> is its outcome). \<open>Threw\<close> is an exception
  thrown while the module loads.
\<close>

datatype boot = Threw | Exited nat | Listening

definition startup :: "process_env \<Rightarrow> bool \<Rightarrow> boot" where
  "startup env connected =
     (if truthy (MONGO_URI env) then (if connected then Listening else Exited 1)
      else Listening)"

section \<open>Library calls\<close>

text \<open>
  \<^verbatim>\<open>bcrypt.hash\<close> and \<^verbatim>\<open>bcrypt.compare\<close> reject when the data argument is \<^verbatim>\<open>undefined\<close>.
\<close>

definition bcrypt_hash_call :: "libs \<Rightarrow> string option \<Rightarrow> nat \<Rightarrow> exn + string" where
  "bcrypt_hash_call L data rounds =
     (case data of None \<Rightarrow> Inl ArgumentsRequired | Some p \<Rightarrow> Inr (bcrypt_hash L p rounds))"

definition bcrypt_compare_call :: "libs \<Rightarrow> string option \<Rightarrow> string \<Rightarrow> exn + bool" where
  "bcrypt_compare_call L data hash =
     (case data of None \<Rightarrow> Inl ArgumentsRequired | Some p \<Rightarrow> Inr (bcrypt_compare L p hash))"

text \<open>
  \<^verbatim>\<open>jwt.verify\<close> reports an error ("jwt must be provided") for a token that is
  \<^verbatim>\<open>undefined\<close> or the empty string.
\<close>

definition jwt_verify_call :: "libs \<Rightarrow> string option \<Rightarrow> string \<Rightarrow> nat \<Rightarrow> claims option" where
  "jwt_verify_call L token key clock =
     (case token of None \<Rightarrow> None
      | Some t \<Rightarrow> if t = [] then None else jwt_verify L t key clock)"

section \<open>The User collection\<close>

text \<open>
  \<^verbatim>\<open>User.findOne({ $or: [{ username }, { email }] })\<close>: the first document whose
  username or email equals the one given. An \<^verbatim>\<open>undefined\<close> value in the filter matches
  no document, since every stored document has the three paths.
\<close>

definition findOne_username_or_email ::
  "store \<Rightarrow> string option \<Rightarrow> string option \<Rightarrow> user option" where
  "findOne_username_or_email db un em =
     find (\<lambda>u. Some (username u) = un \<or> Some (email u) = em) (users db)"

text \<open>\<^verbatim>\<open>User.findOne({ username })\<close>\<close>

definition findOne_username :: "store \<Rightarrow> string option \<Rightarrow> user option" where
  "findOne_username db un = find (\<lambda>u. Some (username u) = un) (users db)"

text \<open>\<^verbatim>\<open>User.findById(id)\<close>\<close>

definition findById :: "store \<Rightarrow> nat \<Rightarrow> user option" where
  "findById db i = find (\<lambda>u. uid u = i) (users db)"

text \<open>
  \<^verbatim>\<open>.select("username email")\<close>: the document with \<^verbatim>\<open>_id\<close>, \<^verbatim>\<open>username\<close> and \<^verbatim>\<open>email\<close> only.
\<close>

record projection =
  proj_uid :: nat
  proj_username :: string
  proj_email :: string

definition select_username_email :: "user \<Rightarrow> projection" where
  "select_username_email u =
     \<lparr>proj_uid = uid u, proj_username = username u, proj_email = email u\<rparr>"

text \<open>
  \<^verbatim>\<open>new User({ username, password: hashedPassword, email }).save()\<close>. The schema makes the
  three paths \<^verbatim>\<open>required\<close> (a string path fails when \<^verbatim>\<open>undefined\<close> or empty) and makes
  \<^verbatim>\<open>username\<close> and \<^verbatim>\<open>email\<close> \<^verbatim>\<open>unique\<close>. A saved document gets a fresh \<^verbatim>\<open>_id\<close> and is
  appended.
\<close>

definition required :: "string option \<Rightarrow> bool" where
  "required v = truthy v"

definition save :: "store \<Rightarrow> string option \<Rightarrow> string \<Rightarrow> string option \<Rightarrow> exn + store" where
  "save db un pw em =
     (if \<not> (required un \<and> required (Some pw) \<and> required em) then Inl ValidationError
      else if list_ex (\<lambda>u. username u = the un \<or> email u = the em) (users db)
      then Inl DuplicateKey
      else Inr (db\<lparr>users := users db @
                     [\<lparr>uid = next_id db, username = the un, password = pw, email = the em\<rparr>],
                   next_id := Suc (next_id db)\<rparr>))"

section \<open>Auth helper\<close>

text \<open>\<^verbatim>\<open>s.split(" ")\<close>: the pieces of \<open>s\<close> between single spaces; never the empty array.\<close>

fun js_split :: "string \<Rightarrow> string list" where
  "js_split [] = [[]]"
| "js_split (c # cs) =
     (if c = CHR '' '' then [] # js_split cs
      else (case js_split cs of [] \<Rightarrow> [[c]] | s # ss \<Rightarrow> (c # s) # ss))"

text \<open>\<^verbatim>\<open>xs[i]\<close>: \<^verbatim>\<open>undefined\<close> out of range.\<close>

definition index :: "'a list \<Rightarrow> nat \<Rightarrow> 'a option" where
  "index xs i = (if i < length xs then Some (xs ! i) else None)"

text \<open>
  The middleware either answers the request itself or sets \<^verbatim>\<open>req.userID\<close> and calls
  \<^verbatim>\<open>next()\<close>. \<open>authorization\<close> is \<^verbatim>\<open>req.headers.authorization\<close>, \<open>clock\<close> the time of the
  request in seconds.
\<close>

datatype guard = Respond response | Next nat

definition authenticateJWT :: "process_env \<Rightarrow> libs \<Rightarrow> nat \<Rightarrow> string option \<Rightarrow> guard" where
  "authenticateJWT env L clock authorization =
     (if \<not> truthy (Some (secret_key env))
      then Respond (Json 500 [(''error'', JString ''Server misconfigured (no SECRET_KEY)'')])
      else if \<not> truthy authorization
      then Respond (Json 401 [(''error'', JString ''Authorization header is missing'')])
      else (let token = index (js_split (the authorization)) 1
            in case jwt_verify_call L token (secret_key env) clock of
                 None \<Rightarrow> Respond (Json 403 [(''error'', JString ''Invalid token'')])
               | Some decoded \<Rightarrow> Next (userID decoded)))"

section \<open>Routes\<close>

definition register :: "process_env \<Rightarrow> libs \<Rightarrow> store \<Rightarrow> register_body \<Rightarrow> store \<times> response" where
  "register env L db b =
     (if \<not> truthy (MONGO_URI env)
      then (db, Json 503 [(''error'', JString ''Database not configured'')])
      else (case findOne_username_or_email db (reg_username b) (reg_email b) of
              Some existingUser \<Rightarrow>
                (db, Json 400 [(''error'', JString ''Username or email already exists'')])
            | None \<Rightarrow>
                (case bcrypt_hash_call L (reg_password b) 10 of
                   Inl e \<Rightarrow> (db, Json 500 [(''error'', JString ''Failed to register user'')])
                 | Inr hashedPassword \<Rightarrow>
                     (case save db (reg_username b) hashedPassword (reg_email b) of
                        Inl e \<Rightarrow> (db, Json 500 [(''error'', JString ''Failed to register user'')])
                      | Inr db' \<Rightarrow>
                          (db', Json 201 [(''message'', JString ''User registered successfully'')])))))"

definition login :: "process_env \<Rightarrow> libs \<Rightarrow> store \<Rightarrow> nat \<Rightarrow> login_body \<Rightarrow> response" where
  "login env L db clock b =
     (if \<not> truthy (MONGO_URI env)
      then Json 503 [(''error'', JString ''Database not configured'')]
      else if \<not> truthy (Some (secret_key env))
      then Json 500 [(''error'', JString ''Server misconfigured (no SECRET_KEY)'')]
      else (case findOne_username db (login_username b) of
              None \<Rightarrow> Json 400 [(''error'', JString ''Invalid credentials'')]
            | Some u \<Rightarrow>
                (case bcrypt_compare_call L (login_password b) (password u) of
                   Inl e \<Rightarrow> Json 500 [(''error'', JString ''Failed to log in'')]
                 | Inr isPasswordValid \<Rightarrow>
                     if \<not> isPasswordValid
                     then Json 400 [(''error'', JString ''Invalid credentials'')]
                     else (let token = jwt_sign L
                                 \<lparr>userID = uid u, claim_username = username u,
                                  claim_email = email u\<rparr>
                                 (secret_key env) 3600 clock
                           in Json 200 [(''token'', JString token), (''userID'', JId (uid u))]))))"

text \<open>The handler of \<^verbatim>\<open>GET /getUser\<close>, run after the middleware has set \<^verbatim>\<open>req.userID\<close>.\<close>

definition getUser_handler :: "process_env \<Rightarrow> store \<Rightarrow> nat \<Rightarrow> response" where
  "getUser_handler env db reqUserID =
     (if \<not> truthy (MONGO_URI env)
      then Json 503 [(''error'', JString ''Database not configured'')]
      else (case map_option select_username_email (findById db reqUserID) of
              None \<Rightarrow> Json 404 [(''error'', JString ''User not found'')]
            | Some u \<Rightarrow>
                Json 200 [(''username'', JString (proj_username u)),
                          (''email'', JString (proj_email u))]))"

text \<open>\<^verbatim>\<open>app.get("/getUser", authenticateJWT, handler)\<close>\<close>

definition getUser :: "process_env \<Rightarrow> libs \<Rightarrow> store \<Rightarrow> nat \<Rightarrow> string option \<Rightarrow> response" where
  "getUser env L db clock authorization =
     (case authenticateJWT env L clock authorization of
        Respond r \<Rightarrow> r
      | Next reqUserID \<Rightarrow> getUser_handler env db reqUserID)"

text \<open>A request to one of the three routes, and a sequence of requests served in order.\<close>

datatype request =
    Register register_body
  | Login nat login_body
  | GetProfile nat "string option"

fun serve :: "process_env \<Rightarrow> libs \<Rightarrow> store \<Rightarrow> request \<Rightarrow> store \<times> response" where
  "serve env L db (Register b) = register env L db b"
| "serve env L db (Login clock b) = (db, login env L db clock b)"
| "serve env L db (GetProfile clock authorization) = (db, getUser env L db clock authorization)"

fun serve_all :: "process_env \<Rightarrow> libs \<Rightarrow> store \<Rightarrow> request list \<Rightarrow> store \<times> response list" where
  "serve_all env L db [] = (db, [])"
| "serve_all env L db (r # rs) =
     (case serve env L db r of
        (db', resp) \<Rightarrow> (case serve_all env L db' rs of (db'', resps) \<Rightarrow> (db'', resp # resps)))"

section \<open>The earlier revision\<close>

text \<open>
  The file also holds an earlier revision of the same server. It reads
  \<^verbatim>\<open>const secret_key = process.env.SECRET_KEY\<close> and throws while loading when the secret
  is missing; its middleware and handlers are the ones above without the \<^verbatim>\<open>SECRET_KEY\<close>
  and \<^verbatim>\<open>MONGO_URI\<close> gates. (Its unconditional \<^verbatim>\<open>connectDB()\<close> is taken to succeed.)
\<close>

definition legacy_startup :: "process_env \<Rightarrow> boot" where
  "legacy_startup env = (if \<not> truthy (SECRET_KEY env) then Threw else Listening)"

definition legacy_authenticateJWT :: "process_env \<Rightarrow> libs \<Rightarrow> nat \<Rightarrow> string option \<Rightarrow> guard" where
  "legacy_authenticateJWT env L clock authorization =
     (if \<not> truthy authorization
      then Respond (Json 401 [(''error'', JString ''Authorization header is missing'')])
      else (let token = index (js_split (the authorization)) 1
            in case jwt_verify_call L token (secret_key env) clock of
                 None \<Rightarrow> Respond (Json 403 [(''error'', JString ''Invalid token'')])
               | Some decoded \<Rightarrow> Next (userID decoded)))"

definition legacy_register :: "libs \<Rightarrow> store \<Rightarrow> register_body \<Rightarrow> store \<times> response" where
  "legacy_register L db b =
     (case findOne_username_or_email db (reg_username b) (reg_email b) of
        Some existingUser \<Rightarrow>
          (db, Json 400 [(''error'', JString ''Username or email already exists'')])
      | None \<Rightarrow>
          (case bcrypt_hash_call L (reg_password b) 10 of
             Inl e \<Rightarrow> (db, Json 500 [(''error'', JString ''Failed to register user'')])
           | Inr hashedPassword \<Rightarrow>
               (case save db (reg_username b) hashedPassword (reg_email b) of
                  Inl e \<Rightarrow> (db, Json 500 [(''error'', JString ''Failed to register user'')])
                | Inr db' \<Rightarrow>
                    (db', Json 201 [(''message'', JString ''User registered successfully'')]))))"

definition legacy_login :: "process_env \<Rightarrow> libs \<Rightarrow> store \<Rightarrow> nat \<Rightarrow> login_body \<Rightarrow> response" where
  "legacy_login env L db clock b =
     (case findOne_username db (login_username b) of
        None \<Rightarrow> Json 400 [(''error'', JString ''Invalid credentials'')]
      | Some u \<Rightarrow>
          (case bcrypt_compare_call L (login_password b) (password u) of
             Inl e \<Rightarrow> Json 500 [(''error'', JString ''Failed to log in'')]
           | Inr isPasswordValid \<Rightarrow>
               if \<not> isPasswordValid
               then Json 400 [(''error'', JString ''Invalid credentials'')]
               else (let token = jwt_sign L
                           \<lparr>userID = uid u, claim_username = username u,
                            claim_email = email u\<rparr>
                           (secret_key env) 3600 clock
                     in Json 200 [(''token'', JString token), (''userID'', JId (uid u))])))"

definition legacy_getUser_handler :: "store \<Rightarrow> nat \<Rightarrow> response" where
  "legacy_getUser_handler db reqUserID =
     (case map_option select_username_email (findById db reqUserID) of
        None \<Rightarrow> Json 404 [(''error'', JString ''User not found'')]
      | Some u \<Rightarrow>
          Json 200 [(''username'', JString (proj_username u)),
                    (''email'', JString (proj_email u))])"

section \<open>What the libraries are assumed to do\<close>

text \<open>
  \<^verbatim>\<open>jsonwebtoken\<close>: a token verifies under the secret that signed it (a non-empty one)
  exactly while the clock has not reached \<open>iat + expiresIn\<close>, and then decodes to the
  signed payload; it does not verify under any other secret; a token is a non-empty
  string without a space.
\<close>

definition jwt_contract :: "libs \<Rightarrow> bool" where
  "jwt_contract L =
     ((\<forall>c k d t clock. k \<noteq> [] \<longrightarrow>
          jwt_verify L (jwt_sign L c k d t) k clock = (if clock < t + d then Some c else None)) \<and>
      (\<forall>c k k' d t clock. k' \<noteq> [] \<longrightarrow> k' \<noteq> k \<longrightarrow>
          jwt_verify L (jwt_sign L c k' d t) k clock = None) \<and>
      (\<forall>c k d t. jwt_sign L c k d t \<noteq> [] \<and> CHR '' '' \<notin> set (jwt_sign L c k d t)))"

text \<open>
  \<^verbatim>\<open>bcrypt\<close>: a hash is a non-empty string, and a password compares equal to its own hash.
\<close>

definition bcrypt_contract :: "libs \<Rightarrow> bool" where
  "bcrypt_contract L =
     (\<forall>p r. bcrypt_hash L p r \<noteq> [] \<and> bcrypt_compare L p (bcrypt_hash L p r))"

section \<open>A reference implementation of the libraries\<close>

text \<open>
  The two contracts are satisfiable: \<open>ref_libs\<close> meets both. Its token is the payload, the
  secret and the expiry time written in unary over the characters \<open>0\<close> and \<open>1\<close>; its hash
  is the password behind a marker. It stands for the libraries wherever a concrete
  instance is evaluated.
\<close>

definition enc_nat :: "nat \<Rightarrow> string" where
  "enc_nat n = replicate n CHR ''1'' @ [CHR ''0'']"

definition enc_str :: "string \<Rightarrow> string" where
  "enc_str s = enc_nat (length s) @ concat (map (\<lambda>c. enc_nat (of_char c)) s)"

fun dec_nat :: "string \<Rightarrow> (nat \<times> string) option" where
  "dec_nat [] = None"
| "dec_nat (c # cs) =
     (if c = CHR ''0'' then Some (0, cs)
      else if c = CHR ''1'' then map_option (\<lambda>(n, r). (Suc n, r)) (dec_nat cs)
      else None)"

fun dec_nats :: "nat \<Rightarrow> string \<Rightarrow> (nat list \<times> string) option" where
  "dec_nats 0 s = Some ([], s)"
| "dec_nats (Suc k) s =
     (case dec_nat s of None \<Rightarrow> None
      | Some (n, r) \<Rightarrow> map_option (\<lambda>(ns, r'). (n # ns, r')) (dec_nats k r))"

definition dec_str :: "string \<Rightarrow> (string \<times> string) option" where
  "dec_str s =
     (case dec_nat s of None \<Rightarrow> None
      | Some (n, r) \<Rightarrow> map_option (\<lambda>(ns, r'). (map char_of ns, r')) (dec_nats n r))"

definition ref_sign :: "claims \<Rightarrow> string \<Rightarrow> nat \<Rightarrow> nat \<Rightarrow> string" where
  "ref_sign c k d t =
     enc_nat (userID c) @ enc_str (claim_username c) @ enc_str (claim_email c) @
     enc_str k @ enc_nat (t + d)"

definition ref_verify :: "string \<Rightarrow> string \<Rightarrow> nat \<Rightarrow> claims option" where
  "ref_verify tok k clock =
     Option.bind (dec_nat tok) (\<lambda>(i, r1).
     Option.bind (dec_str r1) (\<lambda>(u, r2).
     Option.bind (dec_str r2) (\<lambda>(e, r3).
     Option.bind (dec_str r3) (\<lambda>(k', r4).
     Option.bind (dec_nat r4) (\<lambda>(ex, r5).
       if r5 = [] \<and> k' = k \<and> clock < ex
       then Some \<lparr>userID = i, claim_username = u, claim_email = e\<rparr> else None)))))"

definition ref_libs :: libs where
  "ref_libs =
     \<lparr>bcrypt_hash = (\<lambda>p r. CHR ''#'' # p),
      bcrypt_compare = (\<lambda>p h. h = CHR ''#'' # p),
      jwt_sign = ref_sign,
      jwt_verify = ref_verify\<rparr>"

section \<open>Example configurations and stores\<close>

definition env0 :: process_env where
  "env0 = \<lparr>SECRET_KEY = Some ''s3cret'', MONGO_URI = Some ''mongodb://db/app''\<rparr>"

definition env_no_secret :: process_env where
  "env_no_secret = \<lparr>SECRET_KEY = None, MONGO_URI = Some ''mongodb://db/app''\<rparr>"

definition alice :: user where
  "alice = \<lparr>uid = 7, username = ''alice'', password = ''#p4ss'', email = ''a@x.com''\<rparr>"

definition db0 :: store where
  "db0 = \<lparr>users = [], next_id = 7\<rparr>"

definition db1 :: store where
  "db1 = \<lparr>users = [alice], next_id = 8\<rparr>"

definition alice_claims :: claims where
  "alice_claims = \<lparr>userID = 7, claim_username = ''alice'', claim_email = ''a@x.com''\<rparr>"

section \<open>The reference libraries meet the contracts\<close>

lemma dec_nat_enc: "dec_nat (enc_nat n @ r) = Some (n, r)"
  by (induction n) (simp_all add: enc_nat_def)

lemma dec_nats_enc:
  "dec_nats (length ns) (concat (map enc_nat ns) @ r) = Some (ns, r)"
  by (induction ns) (simp_all add: dec_nat_enc)

lemma dec_str_enc: "dec_str (enc_str s @ r) = Some (s, r)"
proof -
  have "dec_nats (length (map (of_char :: char \<Rightarrow> nat) s))
          (concat (map enc_nat (map of_char s)) @ r) = Some (map of_char s, r)"
    by (rule dec_nats_enc)
  then have "dec_nats (length s) (concat (map (\<lambda>c. enc_nat (of_char c)) s) @ r) =
      Some (map of_char s, r)"
    by (simp add: comp_def)
  then show ?thesis
    by (simp add: dec_str_def enc_str_def dec_nat_enc comp_def)
qed

lemma ref_verify_sign:
  "ref_verify (ref_sign c k' d t) k clock = (if k' = k \<and> clock < t + d then Some c else None)"
  using dec_nat_enc [of "t + d" "[]"]
  by (simp add: ref_verify_def ref_sign_def dec_nat_enc dec_str_enc)

lemma set_enc_nat: "set (enc_nat n) \<subseteq> {CHR ''0'', CHR ''1''}"
  by (auto simp: enc_nat_def)

lemma set_enc_str: "set (enc_str s) \<subseteq> {CHR ''0'', CHR ''1''}"
  using set_enc_nat by (fastforce simp: enc_str_def)

lemma ref_sign_chars: "set (ref_sign c k d t) \<subseteq> {CHR ''0'', CHR ''1''}"
  using set_enc_nat set_enc_str by (fastforce simp: ref_sign_def)

lemma ref_sign_no_space: "CHR '' '' \<notin> set (ref_sign c k d t)"
  using ref_sign_chars [of c k d t] by auto

lemma ref_sign_nonempty: "ref_sign c k d t \<noteq> []"
  by (simp add: ref_sign_def enc_nat_def)

lemma ref_libs_jwt: "jwt_contract ref_libs"
  by (simp add: jwt_contract_def ref_libs_def ref_verify_sign ref_sign_no_space ref_sign_nonempty)

lemma ref_libs_bcrypt: "bcrypt_contract ref_libs"
  by (simp add: bcrypt_contract_def ref_libs_def)

section \<open>The two revisions agree on a configured server\<close>

text \<open>
  The earlier revision serves requests only when the secret is set (it throws otherwise),
  and there it answers as the current one does; what is proved below for the current
  revision on a configured server therefore holds for the earlier one too.
\<close>

lemma legacy_startup_throws: "\<not> truthy (SECRET_KEY env) \<Longrightarrow> legacy_startup env = Threw"
  by (simp add: legacy_startup_def)

lemma legacy_startup_secret: "legacy_startup env = Listening \<Longrightarrow> secret_key env \<noteq> []"
  by (auto simp: legacy_startup_def secret_key_def truthy_def split: if_splits option.splits)

lemma legacy_authenticateJWT_agrees:
  "secret_key env \<noteq> [] \<Longrightarrow>
   legacy_authenticateJWT env L clock authorization = authenticateJWT env L clock authorization"
  by (simp add: legacy_authenticateJWT_def authenticateJWT_def truthy_def)

lemma legacy_register_agrees:
  "truthy (MONGO_URI env) \<Longrightarrow> legacy_register L db b = register env L db b"
  by (simp add: legacy_register_def register_def)

lemma legacy_login_agrees:
  "truthy (MONGO_URI env) \<Longrightarrow> secret_key env \<noteq> [] \<Longrightarrow>
   legacy_login env L db clock b = login env L db clock b"
  by (simp add: legacy_login_def login_def truthy_def)

lemma legacy_getUser_handler_agrees:
  "truthy (MONGO_URI env) \<Longrightarrow> legacy_getUser_handler db i = getUser_handler env db i"
  by (simp add: legacy_getUser_handler_def getUser_handler_def)

section \<open>Splitting the header\<close>

lemma js_split_no_space: "CHR '' '' \<notin> set s \<Longrightarrow> js_split s = [s]"
  by (induction s) auto

lemma js_split_space: "CHR '' '' \<notin> set a \<Longrightarrow> js_split (a @ CHR '' '' # b) = a # js_split b"
  by (induction a) auto

lemma index_second_segment:
  assumes "CHR '' '' \<notin> set a" "CHR '' '' \<notin> set t"
  shows "index (js_split (a @ CHR '' '' # t)) (Suc 0) = Some t"
    and "index (js_split (a @ CHR '' '' # t @ CHR '' '' # r)) (Suc 0) = Some t"
  using assms by (simp_all add: js_split_space js_split_no_space index_def)

lemma index_no_segment:
  "CHR '' '' \<notin> set a \<Longrightarrow> index (js_split a) (Suc 0) = None"
  "CHR '' '' \<notin> set a \<Longrightarrow> index (js_split (a @ '' '')) (Suc 0) = Some []"
  by (simp_all add: js_split_space js_split_no_space index_def)

lemma guard_with_header:
  "secret_key env \<noteq> [] \<Longrightarrow> h \<noteq> [] \<Longrightarrow>
   authenticateJWT env L clock (Some h) =
     (case jwt_verify_call L (index (js_split h) 1) (secret_key env) clock of
        None \<Rightarrow> Respond (Json 403 [(''error'', JString ''Invalid token'')])
      | Some decoded \<Rightarrow> Next (userID decoded))"
  by (simp add: authenticateJWT_def truthy_def)

section \<open>Registration\<close>

lemma find_append_new:
  "find P xs = None \<Longrightarrow> P x \<Longrightarrow> find P (xs @ [x]) = Some x"
  by (induction xs) (auto split: if_splits)

lemma register_fresh:
  assumes "truthy (MONGO_URI env)" "bcrypt_contract L" "un \<noteq> []" "em \<noteq> []"
    and "\<forall>u\<in>set (users db). username u \<noteq> un \<and> email u \<noteq> em"
  shows "register env L db \<lparr>reg_username = Some un, reg_password = Some pw, reg_email = Some em\<rparr> =
           (db\<lparr>users := users db @
                  [\<lparr>uid = next_id db, username = un, password = bcrypt_hash L pw 10, email = em\<rparr>],
               next_id := Suc (next_id db)\<rparr>,
            Json 201 [(''message'', JString ''User registered successfully'')])"
proof -
  have none: "findOne_username_or_email db (Some un) (Some em) = None"
    using assms(5) by (auto simp: findOne_username_or_email_def find_None_iff)
  have nodup: "\<not> list_ex (\<lambda>u. username u = un \<or> email u = em) (users db)"
    using assms(5) by (auto simp: list_ex_iff)
  have hash: "bcrypt_hash L pw 10 \<noteq> []"
    using assms(2) by (simp add: bcrypt_contract_def)
  show ?thesis
    using assms(1,3,4) none nodup hash
    by (simp add: register_def bcrypt_hash_call_def save_def required_def truthy_def)
qed

lemma register_example:
  "register env0 ref_libs db0
     \<lparr>reg_username = Some ''alice'', reg_password = Some ''p4ss'', reg_email = Some ''a@x.com''\<rparr> =
     (db1, Json 201 [(''message'', JString ''User registered successfully'')])"
  by (simp add: register_def env0_def truthy_def db0_def db1_def alice_def
      findOne_username_or_email_def bcrypt_hash_call_def ref_libs_def save_def required_def)

lemma env0_configured: "truthy (MONGO_URI env0)" "secret_key env0 \<noteq> []"
  by (simp_all add: env0_def truthy_def secret_key_def)

lemma db1_alice: "findOne_username db1 (Some ''alice'') = Some alice"
  by (simp add: findOne_username_def db1_def alice_def)

section \<open>Register, then log in\<close>

text \<open>
  C1. On a configured server (\<^verbatim>\<open>MONGO_URI\<close> and \<^verbatim>\<open>SECRET_KEY\<close> set), for every non-empty
  username and email that no stored record carries, and every password: Register answers
  201, and Login with the same username and password on the resulting store answers 200
  with a token; the token is the signature of a payload whose username and email are the
  ones registered, and verifying it yields that payload.
\<close>

theorem register_then_login:
  assumes "truthy (MONGO_URI env)" "secret_key env \<noteq> []"
    and "bcrypt_contract L" "jwt_contract L"
    and "un \<noteq> []" "em \<noteq> []"
    and "\<forall>u\<in>set (users db). username u \<noteq> un \<and> email u \<noteq> em"
  shows "\<exists>db' tok i.
           register env L db \<lparr>reg_username = Some un, reg_password = Some pw, reg_email = Some em\<rparr> =
             (db', Json 201 [(''message'', JString ''User registered successfully'')]) \<and>
           login env L db' clock \<lparr>login_username = Some un, login_password = Some pw\<rparr> =
             Json 200 [(''token'', JString tok), (''userID'', JId i)] \<and>
           tok = jwt_sign L \<lparr>userID = i, claim_username = un, claim_email = em\<rparr>
                   (secret_key env) 3600 clock \<and>
           jwt_verify L tok (secret_key env) clock =
             Some \<lparr>userID = i, claim_username = un, claim_email = em\<rparr>"
proof -
  let ?new = "\<lparr>uid = next_id db, username = un, password = bcrypt_hash L pw 10, email = em\<rparr>"
  let ?db' = "db\<lparr>users := users db @ [?new], next_id := Suc (next_id db)\<rparr>"
  have reg: "register env L db \<lparr>reg_username = Some un, reg_password = Some pw, reg_email = Some em\<rparr> =
               (?db', Json 201 [(''message'', JString ''User registered successfully'')])"
    using register_fresh [OF assms(1,3,5,6,7)] .
  have "find (\<lambda>u. Some (username u) = Some un) (users db) = None"
    using assms(7) by (auto simp: find_None_iff)
  then have found: "findOne_username ?db' (Some un) = Some ?new"
    by (simp add: findOne_username_def find_append_new)
  have cmp: "bcrypt_compare L pw (bcrypt_hash L pw 10)"
    using assms(3) by (simp add: bcrypt_contract_def)
  have ver: "jwt_verify L (jwt_sign L \<lparr>userID = next_id db, claim_username = un, claim_email = em\<rparr>
                 (secret_key env) 3600 clock) (secret_key env) clock =
             Some \<lparr>userID = next_id db, claim_username = un, claim_email = em\<rparr>"
    using assms(2,4) by (simp add: jwt_contract_def)
  have log: "login env L ?db' clock \<lparr>login_username = Some un, login_password = Some pw\<rparr> =
               Json 200 [(''token'', JString (jwt_sign L
                    \<lparr>userID = next_id db, claim_username = un, claim_email = em\<rparr>
                    (secret_key env) 3600 clock)), (''userID'', JId (next_id db))]"
    using assms(1,2) found cmp by (simp add: login_def bcrypt_compare_call_def truthy_def)
  show ?thesis using reg log ver by blast
qed

theorem register_then_login_witness:
  "truthy (MONGO_URI env0) \<and> secret_key env0 \<noteq> [] \<and>
   bcrypt_contract ref_libs \<and> jwt_contract ref_libs \<and> users db0 = [] \<and>
   (\<exists>db' tok i.
      register env0 ref_libs db0
        \<lparr>reg_username = Some ''alice'', reg_password = Some ''p4ss'', reg_email = Some ''a@x.com''\<rparr> =
        (db', Json 201 [(''message'', JString ''User registered successfully'')]) \<and>
      login env0 ref_libs db' 0 \<lparr>login_username = Some ''alice'', login_password = Some ''p4ss''\<rparr> =
        Json 200 [(''token'', JString tok), (''userID'', JId i)] \<and>
      tok = jwt_sign ref_libs \<lparr>userID = i, claim_username = ''alice'', claim_email = ''a@x.com''\<rparr>
              (secret_key env0) 3600 0 \<and>
      jwt_verify ref_libs tok (secret_key env0) 0 =
        Some \<lparr>userID = i, claim_username = ''alice'', claim_email = ''a@x.com''\<rparr>)"
proof -
  have h: "\<forall>u\<in>set (users db0). username u \<noteq> ''alice'' \<and> email u \<noteq> ''a@x.com''"
    by (simp add: db0_def)
  have e: "users db0 = []"
    by (simp add: db0_def)
  show ?thesis
    using h e env0_configured ref_libs_bcrypt ref_libs_jwt
      register_then_login [where env = env0 and L = ref_libs and db = db0 and un = "''alice''"
        and em = "''a@x.com''" and pw = "''p4ss''" and clock = 0]
    by simp
qed

section \<open>Failed logins\<close>

text \<open>
  C2. When the username names a stored record and the password does not match its hash,
  Login gives the very response (status and body) that it gives for a username with no
  record, whatever password and time the second request has; on a configured server that
  response is 400 "Invalid credentials".
\<close>

theorem login_failure_indistinguishable:
  assumes "findOne_username db (Some un) = Some u"
    and "\<not> bcrypt_compare L pw (password u)"
    and "findOne_username db un' = None"
  shows "login env L db clock \<lparr>login_username = Some un, login_password = Some pw\<rparr> =
           login env L db clock' \<lparr>login_username = un', login_password = pw'\<rparr> \<and>
         (truthy (MONGO_URI env) \<and> secret_key env \<noteq> [] \<longrightarrow>
            login env L db clock \<lparr>login_username = Some un, login_password = Some pw\<rparr> =
              Json 400 [(''error'', JString ''Invalid credentials'')])"
  using assms by (simp add: login_def bcrypt_compare_call_def truthy_def)

theorem login_failure_indistinguishable_witness:
  "findOne_username db1 (Some ''alice'') = Some alice \<and>
   \<not> bcrypt_compare ref_libs ''wrong'' (password alice) \<and>
   findOne_username db1 (Some ''bob'') = None \<and>
   login env0 ref_libs db1 0 \<lparr>login_username = Some ''alice'', login_password = Some ''wrong''\<rparr> =
     login env0 ref_libs db1 0 \<lparr>login_username = Some ''bob'', login_password = Some ''p4ss''\<rparr> \<and>
   login env0 ref_libs db1 0 \<lparr>login_username = Some ''alice'', login_password = Some ''wrong''\<rparr> =
     Json 400 [(''error'', JString ''Invalid credentials'')]"
proof -
  have h: "\<not> bcrypt_compare ref_libs ''wrong'' (password alice)"
    "findOne_username db1 (Some ''bob'') = None"
    by (simp_all add: ref_libs_def alice_def findOne_username_def db1_def)
  show ?thesis
    using h db1_alice env0_configured
      login_failure_indistinguishable [where db = db1 and un = "''alice''" and u = alice
        and L = ref_libs and pw = "''wrong''" and un' = "Some ''bob''" and env = env0
        and clock = 0 and clock' = 0 and pw' = "Some ''p4ss''"]
    by blast
qed

section \<open>Duplicate registrations\<close>

text \<open>
  C3. On a server with the store configured: whenever a stored record has the username
  or the email of the registration request, Register answers 400 "Username or email
  already exists" and leaves the store as it is. In particular, after a successful
  registration, a second one with the same username (any email) or the same email (any
  username) is answered so.
\<close>

theorem register_duplicate:
  assumes "truthy (MONGO_URI env)"
  shows "(\<forall>u\<in>set (users db).
            reg_username b = Some (username u) \<or> reg_email b = Some (email u) \<longrightarrow>
            register env L db b =
              (db, Json 400 [(''error'', JString ''Username or email already exists'')])) \<and>
         (register env L db b1 = (db', Json 201 m) \<longrightarrow>
            reg_username b2 = reg_username b1 \<or> reg_email b2 = reg_email b1 \<longrightarrow>
            register env L db' b2 =
              (db', Json 400 [(''error'', JString ''Username or email already exists'')]))"
proof (intro conjI ballI impI)
  fix u assume "u \<in> set (users db)"
    and "reg_username b = Some (username u) \<or> reg_email b = Some (email u)"
  then have "findOne_username_or_email db (reg_username b) (reg_email b) \<noteq> None"
    by (auto simp: findOne_username_or_email_def find_None_iff)
  then show "register env L db b =
      (db, Json 400 [(''error'', JString ''Username or email already exists'')])"
    using assms by (auto simp: register_def)
next
  assume reg: "register env L db b1 = (db', Json 201 m)"
    and same: "reg_username b2 = reg_username b1 \<or> reg_email b2 = reg_email b1"
  from reg assms obtain h where sv: "save db (reg_username b1) h (reg_email b1) = Inr db'"
    by (auto simp: register_def split: option.splits sum.splits)
  then have "\<exists>new. users db' = users db @ [new] \<and>
      reg_username b1 = Some (username new) \<and> reg_email b1 = Some (email new)"
    by (auto simp: save_def required_def truthy_def split: if_splits option.splits)
  then obtain new where "new \<in> set (users db')"
    "reg_username b1 = Some (username new)" "reg_email b1 = Some (email new)"
    by fastforce
  with same have "findOne_username_or_email db' (reg_username b2) (reg_email b2) \<noteq> None"
    by (auto simp: findOne_username_or_email_def find_None_iff)
  then show "register env L db' b2 =
      (db', Json 400 [(''error'', JString ''Username or email already exists'')])"
    using assms by (auto simp: register_def)
qed

theorem register_duplicate_witness:
  "truthy (MONGO_URI env0) \<and> alice \<in> set (users db1) \<and>
   register env0 ref_libs db1
     \<lparr>reg_username = Some ''alice'', reg_password = Some ''pw2'', reg_email = Some ''other@x.com''\<rparr> =
     (db1, Json 400 [(''error'', JString ''Username or email already exists'')]) \<and>
   register env0 ref_libs db0
     \<lparr>reg_username = Some ''alice'', reg_password = Some ''p4ss'', reg_email = Some ''a@x.com''\<rparr> =
     (db1, Json 201 [(''message'', JString ''User registered successfully'')]) \<and>
   register env0 ref_libs db1
     \<lparr>reg_username = Some ''carol'', reg_password = Some ''pw2'', reg_email = Some ''a@x.com''\<rparr> =
     (db1, Json 400 [(''error'', JString ''Username or email already exists'')])"
proof -
  have h: "alice \<in> set (users db1)"
    by (simp add: db1_def)
  have dup: "reg_username \<lparr>reg_username = Some ''alice'', reg_password = Some ''pw2'',
        reg_email = Some ''other@x.com''\<rparr> = Some (username alice)"
    by (simp add: alice_def)
  have same: "reg_email \<lparr>reg_username = Some ''carol'', reg_password = Some ''pw2'',
        reg_email = Some ''a@x.com''\<rparr> =
      reg_email \<lparr>reg_username = Some ''alice'', reg_password = Some ''p4ss'',
        reg_email = Some ''a@x.com''\<rparr>"
    by simp
  show ?thesis
    using h env0_configured(1) register_example dup same
      register_duplicate [where env = env0 and db = db1 and L = ref_libs
        and b = "\<lparr>reg_username = Some ''alice'', reg_password = Some ''pw2'',
                   reg_email = Some ''other@x.com''\<rparr>"]
      register_duplicate [where env = env0 and db = db0 and L = ref_libs
        and ?b1.0 = "\<lparr>reg_username = Some ''alice'', reg_password = Some ''p4ss'',
                   reg_email = Some ''a@x.com''\<rparr>"
        and ?b2.0 = "\<lparr>reg_username = Some ''carol'', reg_password = Some ''pw2'',
                   reg_email = Some ''a@x.com''\<rparr>"
        and db' = db1 and m = "[(''message'', JString ''User registered successfully'')]"]
    by blast
qed

section \<open>The guard of the profile route\<close>

text \<open>
  C4. On a server with the signing secret configured, for every request to
  \<^verbatim>\<open>GET /getUser\<close>: without an Authorization header (\<^verbatim>\<open>!authHeader\<close>: the header is
  \<^verbatim>\<open>undefined\<close> or empty) the middleware answers 401 itself and the handler does not
  run; with a header whose second segment fails \<^verbatim>\<open>jwt.verify\<close> (bad signature,
  expired), or with a header that has no token segment (no space, or nothing after the
  space), it answers 403 itself and the handler does not run.
\<close>

theorem guard_rejects:
  assumes "secret_key env \<noteq> []"
  shows "authenticateJWT env L clock None =
           Respond (Json 401 [(''error'', JString ''Authorization header is missing'')]) \<and>
         getUser env L db clock None =
           Json 401 [(''error'', JString ''Authorization header is missing'')] \<and>
         authenticateJWT env L clock (Some []) =
           Respond (Json 401 [(''error'', JString ''Authorization header is missing'')]) \<and>
         (h \<noteq> [] \<longrightarrow>
            jwt_verify_call L (index (js_split h) 1) (secret_key env) clock = None \<longrightarrow>
            authenticateJWT env L clock (Some h) =
              Respond (Json 403 [(''error'', JString ''Invalid token'')]) \<and>
            getUser env L db clock (Some h) = Json 403 [(''error'', JString ''Invalid token'')]) \<and>
         (h \<noteq> [] \<longrightarrow> CHR '' '' \<notin> set h \<longrightarrow>
            authenticateJWT env L clock (Some h) =
              Respond (Json 403 [(''error'', JString ''Invalid token'')]) \<and>
            authenticateJWT env L clock (Some (h @ '' '')) =
              Respond (Json 403 [(''error'', JString ''Invalid token'')]))"
proof -
  have missing: "authenticateJWT env L clock None =
      Respond (Json 401 [(''error'', JString ''Authorization header is missing'')])"
    using assms by (simp add: authenticateJWT_def truthy_def)
  have empty: "authenticateJWT env L clock (Some []) =
      Respond (Json 401 [(''error'', JString ''Authorization header is missing'')])"
    using assms by (simp add: authenticateJWT_def truthy_def)
  have invalid: "authenticateJWT env L clock (Some h) =
      Respond (Json 403 [(''error'', JString ''Invalid token'')])"
    if "h \<noteq> []" "jwt_verify_call L (index (js_split h) 1) (secret_key env) clock = None" for h
    using that assms by (simp add: guard_with_header)
  have no_segment: "jwt_verify_call L (index (js_split h) 1) (secret_key env) clock = None"
    "jwt_verify_call L (index (js_split (h @ '' '')) 1) (secret_key env) clock = None"
    if "CHR '' '' \<notin> set h"
    using that by (simp_all add: index_no_segment jwt_verify_call_def)
  show ?thesis
    using missing empty invalid [of h] invalid [of "h @ '' ''"] no_segment
    by (simp add: getUser_def)
qed

theorem guard_rejects_witness:
  "secret_key env0 \<noteq> [] \<and>
   authenticateJWT env0 ref_libs 0 None =
     Respond (Json 401 [(''error'', JString ''Authorization header is missing'')]) \<and>
   getUser env0 ref_libs db1 0 None =
     Json 401 [(''error'', JString ''Authorization header is missing'')] \<and>
   jwt_verify_call ref_libs (index (js_split ''Bearer 2'') 1) (secret_key env0) 0 = None \<and>
   authenticateJWT env0 ref_libs 0 (Some ''Bearer 2'') =
     Respond (Json 403 [(''error'', JString ''Invalid token'')]) \<and>
   getUser env0 ref_libs db1 0 (Some ''Bearer 2'') =
     Json 403 [(''error'', JString ''Invalid token'')] \<and>
   authenticateJWT env0 ref_libs 0 (Some ''Bearer'') =
     Respond (Json 403 [(''error'', JString ''Invalid token'')]) \<and>
   authenticateJWT env0 ref_libs 0 (Some ''Bearer '') =
     Respond (Json 403 [(''error'', JString ''Invalid token'')])"
proof -
  have h: "jwt_verify_call ref_libs (index (js_split ''Bearer 2'') 1) (secret_key env0) 0 = None"
    by (simp add: index_def jwt_verify_call_def ref_libs_def ref_verify_def)
  show ?thesis
    using h env0_configured(2)
      guard_rejects [where env = env0 and L = ref_libs and clock = 0 and db = db1
        and h = "''Bearer 2''"]
      guard_rejects [where env = env0 and L = ref_libs and clock = 0 and db = db1
        and h = "''Bearer''"]
    by simp
qed

section \<open>Tokens at the guard\<close>

lemma guard_bearer:
  assumes "secret_key env \<noteq> []" "jwt_contract L"
  shows "authenticateJWT env L clock (Some (''Bearer '' @ jwt_sign L c k d t)) =
      (case jwt_verify L (jwt_sign L c k d t) (secret_key env) clock of
         None \<Rightarrow> Respond (Json 403 [(''error'', JString ''Invalid token'')])
       | Some decoded \<Rightarrow> Next (userID decoded))"
proof -
  have "index (js_split (''Bearer '' @ jwt_sign L c k d t)) (Suc 0) = Some (jwt_sign L c k d t)"
    using assms(2) index_second_segment(1) [of "''Bearer''" "jwt_sign L c k d t"]
    by (simp add: jwt_contract_def)
  moreover have "jwt_verify_call L (Some (jwt_sign L c k d t)) (secret_key env) clock =
      jwt_verify L (jwt_sign L c k d t) (secret_key env) clock"
    using assms(2) by (simp add: jwt_verify_call_def jwt_contract_def)
  ultimately show ?thesis
    using assms(1) guard_with_header [of env "''Bearer '' @ jwt_sign L c k d t" L clock]
    by (simp del: append.simps)
qed

lemma login_issues:
  assumes "login env L db t b = Json 200 [(''token'', JString tok), (''userID'', JId i)]"
  shows "\<exists>c. tok = jwt_sign L c (secret_key env) 3600 t \<and> userID c = i"
  using assms
  by (fastforce simp: login_def Let_def split: if_splits option.splits sum.splits)

text \<open>
  C5. With the signing secret configured and \<^verbatim>\<open>jsonwebtoken\<close> meeting its contract: a
  token that Login issued at time \<open>t\<close>, sent as \<^verbatim>\<open>Bearer <token>\<close>, passes the middleware
  (which hands the token's user identifier to the handler) at every time before
  \<open>t + 3600\<close>, and is answered 403 from \<open>t + 3600\<close> on; a token signed with any other
  secret is answered 403 at every time.
\<close>

theorem guard_accepts_issued_token:
  assumes "secret_key env \<noteq> []" "jwt_contract L"
  shows "(login env L db t b = Json 200 [(''token'', JString tok), (''userID'', JId i)] \<longrightarrow>
            (clock < t + 3600 \<longrightarrow>
               authenticateJWT env L clock (Some (''Bearer '' @ tok)) = Next i) \<and>
            (t + 3600 \<le> clock \<longrightarrow>
               authenticateJWT env L clock (Some (''Bearer '' @ tok)) =
                 Respond (Json 403 [(''error'', JString ''Invalid token'')]))) \<and>
         (k \<noteq> [] \<longrightarrow> k \<noteq> secret_key env \<longrightarrow>
            authenticateJWT env L clock (Some (''Bearer '' @ jwt_sign L c k d t')) =
              Respond (Json 403 [(''error'', JString ''Invalid token'')]))"
proof -
  have own: "jwt_verify L (jwt_sign L c (secret_key env) d t) (secret_key env) clock =
      (if clock < t + d then Some c else None)" for c d t
    using assms by (simp add: jwt_contract_def)
  have other: "jwt_verify L (jwt_sign L c k d t') (secret_key env) clock = None"
    if "k \<noteq> []" "k \<noteq> secret_key env"
    using assms(2) that by (simp add: jwt_contract_def)
  show ?thesis
  proof (intro conjI impI)
    assume "login env L db t b = Json 200 [(''token'', JString tok), (''userID'', JId i)]"
      and "clock < t + 3600"
    then obtain c where "tok = jwt_sign L c (secret_key env) 3600 t" "userID c = i"
      using login_issues by blast
    then show "authenticateJWT env L clock (Some (''Bearer '' @ tok)) = Next i"
      using guard_bearer [OF assms, of clock c "secret_key env" 3600 t] own [of c 3600 t]
        \<open>clock < t + 3600\<close>
      by (simp del: append.simps)
  next
    assume "login env L db t b = Json 200 [(''token'', JString tok), (''userID'', JId i)]"
      and "t + 3600 \<le> clock"
    then obtain c where "tok = jwt_sign L c (secret_key env) 3600 t" "userID c = i"
      using login_issues by blast
    then show "authenticateJWT env L clock (Some (''Bearer '' @ tok)) =
        Respond (Json 403 [(''error'', JString ''Invalid token'')])"
      using guard_bearer [OF assms, of clock c "secret_key env" 3600 t] own [of c 3600 t]
        \<open>t + 3600 \<le> clock\<close>
      by (simp del: append.simps)
  next
    assume "k \<noteq> []" "k \<noteq> secret_key env"
    then show "authenticateJWT env L clock (Some (''Bearer '' @ jwt_sign L c k d t')) =
        Respond (Json 403 [(''error'', JString ''Invalid token'')])"
      using guard_bearer [OF assms, of clock c k d t'] other by (simp del: append.simps)
  qed
qed

lemma login_example:
  "login env0 ref_libs db1 100 \<lparr>login_username = Some ''alice'', login_password = Some ''p4ss''\<rparr> =
     Json 200 [(''token'', JString (jwt_sign ref_libs alice_claims ''s3cret'' 3600 100)),
               (''userID'', JId 7)]"
  using db1_alice
  by (simp add: login_def env0_def truthy_def secret_key_def bcrypt_compare_call_def
      alice_def alice_claims_def ref_libs_def)

theorem guard_accepts_issued_token_witness:
  "secret_key env0 \<noteq> [] \<and> jwt_contract ref_libs \<and>
   login env0 ref_libs db1 100 \<lparr>login_username = Some ''alice'', login_password = Some ''p4ss''\<rparr> =
     Json 200 [(''token'', JString (jwt_sign ref_libs alice_claims ''s3cret'' 3600 100)),
               (''userID'', JId 7)] \<and>
   authenticateJWT env0 ref_libs 3699
     (Some (''Bearer '' @ jwt_sign ref_libs alice_claims ''s3cret'' 3600 100)) = Next 7 \<and>
   authenticateJWT env0 ref_libs 3700
     (Some (''Bearer '' @ jwt_sign ref_libs alice_claims ''s3cret'' 3600 100)) =
     Respond (Json 403 [(''error'', JString ''Invalid token'')]) \<and>
   authenticateJWT env0 ref_libs 200
     (Some (''Bearer '' @ jwt_sign ref_libs alice_claims ''forged'' 3600 100)) =
     Respond (Json 403 [(''error'', JString ''Invalid token'')])"
proof -
  have fresh: "authenticateJWT env0 ref_libs 3699
      (Some (''Bearer '' @ jwt_sign ref_libs alice_claims ''s3cret'' 3600 100)) = Next 7"
    using env0_configured(2) ref_libs_jwt login_example
      guard_accepts_issued_token [where env = env0 and L = ref_libs and db = db1 and t = 100
        and b = "\<lparr>login_username = Some ''alice'', login_password = Some ''p4ss''\<rparr>"
        and tok = "jwt_sign ref_libs alice_claims ''s3cret'' 3600 100" and i = 7
        and clock = 3699]
    by simp
  have expired: "authenticateJWT env0 ref_libs 3700
      (Some (''Bearer '' @ jwt_sign ref_libs alice_claims ''s3cret'' 3600 100)) =
      Respond (Json 403 [(''error'', JString ''Invalid token'')])"
    using env0_configured(2) ref_libs_jwt login_example
      guard_accepts_issued_token [where env = env0 and L = ref_libs and db = db1 and t = 100
        and b = "\<lparr>login_username = Some ''alice'', login_password = Some ''p4ss''\<rparr>"
        and tok = "jwt_sign ref_libs alice_claims ''s3cret'' 3600 100" and i = 7
        and clock = 3700]
    by simp
  have key: "''forged'' \<noteq> secret_key env0"
    by (simp add: env0_def secret_key_def truthy_def)
  have forged: "authenticateJWT env0 ref_libs 200
      (Some (''Bearer '' @ jwt_sign ref_libs alice_claims ''forged'' 3600 100)) =
      Respond (Json 403 [(''error'', JString ''Invalid token'')])"
    using env0_configured(2) ref_libs_jwt key
      guard_accepts_issued_token [where env = env0 and L = ref_libs and clock = 200
        and k = "''forged''" and c = alice_claims and d = 3600 and t' = 100]
    by simp
  show ?thesis
    using env0_configured(2) ref_libs_jwt login_example fresh expired forged
    by (intro conjI)
qed

text \<open>
  C9. The middleware never looks at the scheme word. With the signing secret configured,
  for every header \<^verbatim>\<open><scheme> <token>\<close> (optionally followed by a space and more text)
  whose scheme and token contain no space and whose token verifies under the secret, the
  middleware passes the request on with the token's user identifier, whatever the scheme
  is, the empty word included.
\<close>

theorem guard_ignores_scheme:
  assumes "secret_key env \<noteq> []"
    and "CHR '' '' \<notin> set scheme"
    and "token \<noteq> []" "CHR '' '' \<notin> set token"
    and "jwt_verify L token (secret_key env) clock = Some decoded"
  shows "authenticateJWT env L clock (Some (scheme @ '' '' @ token)) = Next (userID decoded) \<and>
         authenticateJWT env L clock (Some (scheme @ '' '' @ token @ '' '' @ rest)) =
           Next (userID decoded)"
proof -
  have call: "jwt_verify_call L (Some token) (secret_key env) clock = Some decoded"
    using assms(3,5) by (simp add: jwt_verify_call_def)
  have "authenticateJWT env L clock (Some (scheme @ CHR '' '' # token)) = Next (userID decoded)"
    using assms(1) call index_second_segment(1) [OF assms(2,4)]
      guard_with_header [of env "scheme @ CHR '' '' # token" L clock]
    by simp
  moreover have "authenticateJWT env L clock (Some (scheme @ CHR '' '' # token @ CHR '' '' # rest)) =
      Next (userID decoded)"
    using assms(1) call index_second_segment(2) [OF assms(2,4), of rest]
      guard_with_header [of env "scheme @ CHR '' '' # token @ CHR '' '' # rest" L clock]
    by simp
  ultimately show ?thesis by simp
qed

lemma ref_verify_example:
  "jwt_verify ref_libs (jwt_sign ref_libs alice_claims ''s3cret'' 3600 100) (secret_key env0) 200 =
     Some alice_claims"
  by (simp add: ref_libs_def ref_verify_sign env0_def secret_key_def truthy_def)

theorem guard_ignores_scheme_witness:
  "secret_key env0 \<noteq> [] \<and> CHR '' '' \<notin> set ''Basic'' \<and>
   jwt_sign ref_libs alice_claims ''s3cret'' 3600 100 \<noteq> [] \<and>
   CHR '' '' \<notin> set (jwt_sign ref_libs alice_claims ''s3cret'' 3600 100) \<and>
   jwt_verify ref_libs (jwt_sign ref_libs alice_claims ''s3cret'' 3600 100) (secret_key env0) 200 =
     Some alice_claims \<and>
   authenticateJWT env0 ref_libs 200
     (Some (''Basic'' @ '' '' @ jwt_sign ref_libs alice_claims ''s3cret'' 3600 100)) = Next 7 \<and>
   authenticateJWT env0 ref_libs 200
     (Some ([] @ '' '' @ jwt_sign ref_libs alice_claims ''s3cret'' 3600 100)) = Next 7"
proof -
  have s: "CHR '' '' \<notin> set ''Basic''" "CHR '' '' \<notin> set []"
    by simp_all
  have t: "jwt_sign ref_libs alice_claims ''s3cret'' 3600 100 \<noteq> []"
    "CHR '' '' \<notin> set (jwt_sign ref_libs alice_claims ''s3cret'' 3600 100)"
    by (simp_all add: ref_libs_def ref_sign_nonempty ref_sign_no_space)
  have i: "userID alice_claims = 7"
    by (simp add: alice_claims_def)
  show ?thesis
    using s t i env0_configured(2) ref_verify_example
      guard_ignores_scheme [where env = env0 and L = ref_libs and clock = 200
        and scheme = "''Basic''" and token = "jwt_sign ref_libs alice_claims ''s3cret'' 3600 100"
        and decoded = alice_claims]
      guard_ignores_scheme [where env = env0 and L = ref_libs and clock = 200
        and scheme = "[]" and token = "jwt_sign ref_libs alice_claims ''s3cret'' 3600 100"
        and decoded = alice_claims]
    by simp
qed

section \<open>A missing signing secret\<close>

text \<open>
  C6. When \<^verbatim>\<open>SECRET_KEY\<close> is absent (or empty), the process still starts: it listens
  unless a configured store fails to connect. The routes that need the secret then answer
  with an error and never succeed: the middleware of \<^verbatim>\<open>GET /getUser\<close> answers 500
  "Server misconfigured (no SECRET_KEY)" to every request, and Login answers that same 500
  when the store is configured and 503 "Database not configured" when it is not. The
  status for the missing secret is 500, not 503.
\<close>

theorem missing_secret_degrades:
  assumes "\<not> truthy (SECRET_KEY env)"
  shows "startup env connected \<noteq> Threw \<and>
         (\<not> truthy (MONGO_URI env) \<or> connected \<longrightarrow> startup env connected = Listening) \<and>
         authenticateJWT env L clock authorization =
           Respond (Json 500 [(''error'', JString ''Server misconfigured (no SECRET_KEY)'')]) \<and>
         getUser env L db clock authorization =
           Json 500 [(''error'', JString ''Server misconfigured (no SECRET_KEY)'')] \<and>
         login env L db clock b =
           (if truthy (MONGO_URI env)
            then Json 500 [(''error'', JString ''Server misconfigured (no SECRET_KEY)'')]
            else Json 503 [(''error'', JString ''Database not configured'')])"
  using assms
  by (simp add: startup_def authenticateJWT_def getUser_def login_def secret_key_def truthy_def)

theorem missing_secret_degrades_witness:
  "\<not> truthy (SECRET_KEY env_no_secret) \<and>
   startup env_no_secret True = Listening \<and>
   authenticateJWT env_no_secret ref_libs 200
     (Some (''Bearer '' @ jwt_sign ref_libs alice_claims ''s3cret'' 3600 100)) =
     Respond (Json 500 [(''error'', JString ''Server misconfigured (no SECRET_KEY)'')]) \<and>
   getUser env_no_secret ref_libs db1 200 None =
     Json 500 [(''error'', JString ''Server misconfigured (no SECRET_KEY)'')] \<and>
   login env_no_secret ref_libs db1 100
     \<lparr>login_username = Some ''alice'', login_password = Some ''p4ss''\<rparr> =
     Json 500 [(''error'', JString ''Server misconfigured (no SECRET_KEY)'')]"
proof -
  have h: "\<not> truthy (SECRET_KEY env_no_secret)" "truthy (MONGO_URI env_no_secret)"
    by (simp_all add: env_no_secret_def truthy_def)
  show ?thesis
    using h
      missing_secret_degrades [where env = env_no_secret and connected = True and L = ref_libs
        and clock = 200 and db = db1
        and authorization = "Some (''Bearer '' @ jwt_sign ref_libs alice_claims ''s3cret'' 3600 100)"]
      missing_secret_degrades [where env = env_no_secret and connected = True and L = ref_libs
        and clock = 200 and db = db1 and authorization = None]
      missing_secret_degrades [where env = env_no_secret and connected = True and L = ref_libs
        and clock = 100 and db = db1
        and b = "\<lparr>login_username = Some ''alice'', login_password = Some ''p4ss''\<rparr>"]
    by simp
qed

text \<open>
  With the store configured and no secret, Login and the profile route answer 500, which
  is not the service-unavailable status 503.
\<close>

theorem missing_secret_counterexample:
  "SECRET_KEY env_no_secret = None \<and>
   login env_no_secret ref_libs db1 100
     \<lparr>login_username = Some ''alice'', login_password = Some ''p4ss''\<rparr> =
     Json 500 [(''error'', JString ''Server misconfigured (no SECRET_KEY)'')] \<and>
   status (login env_no_secret ref_libs db1 100
     \<lparr>login_username = Some ''alice'', login_password = Some ''p4ss''\<rparr>) \<noteq> 503 \<and>
   getUser env_no_secret ref_libs db1 100 (Some ''Bearer x'') =
     Json 500 [(''error'', JString ''Server misconfigured (no SECRET_KEY)'')] \<and>
   status (getUser env_no_secret ref_libs db1 100 (Some ''Bearer x'')) \<noteq> 503"
  by (simp add: env_no_secret_def login_def getUser_def authenticateJWT_def secret_key_def
      truthy_def)

section \<open>The profile\<close>

lemma getUser_handler_ok:
  assumes "status (getUser_handler env db i) = 200"
  shows "\<exists>u. findById db i = Some u \<and>
           getUser_handler env db i =
             Json 200 [(''username'', JString (username u)), (''email'', JString (email u))]"
  using assms
  by (auto simp: getUser_handler_def select_username_email_def split: if_splits option.splits)

text \<open>
  C7. Whenever \<^verbatim>\<open>GET /getUser\<close> answers 200, for any store: the middleware passed some
  identifier on, a record with that identifier was found, and the body consists of exactly
  two fields, \<^verbatim>\<open>username\<close> and \<^verbatim>\<open>email\<close>, holding that record's username and email;
  there is no \<^verbatim>\<open>password\<close> field.
\<close>

theorem getUser_projects_username_email:
  assumes "status (getUser env L db clock authorization) = 200"
  shows "\<exists>i u. authenticateJWT env L clock authorization = Next i \<and>
           findById db i = Some u \<and>
           getUser env L db clock authorization =
             Json 200 [(''username'', JString (username u)), (''email'', JString (email u))] \<and>
           body_keys (getUser env L db clock authorization) = [''username'', ''email''] \<and>
           ''password'' \<notin> set (body_keys (getUser env L db clock authorization))"
proof (cases "authenticateJWT env L clock authorization")
  case (Respond r)
  then have "status r \<in> {500, 401, 403}"
    by (auto simp: authenticateJWT_def Let_def split: if_splits option.splits)
  with Respond assms show ?thesis
    by (auto simp: getUser_def)
next
  case (Next i)
  with assms have "status (getUser_handler env db i) = 200"
    by (simp add: getUser_def)
  from getUser_handler_ok [OF this] Next show ?thesis
    by (auto simp: getUser_def)
qed

lemma guard_example:
  "authenticateJWT env0 ref_libs 200
     (Some (''Bearer '' @ jwt_sign ref_libs alice_claims ''s3cret'' 3600 100)) = Next 7"
  using guard_bearer [OF env0_configured(2) ref_libs_jwt, of 200 alice_claims "''s3cret''" 3600 100]
    ref_verify_example
  by (simp add: alice_claims_def del: append.simps)

lemma getUser_example:
  "getUser env0 ref_libs db1 200
     (Some (''Bearer '' @ jwt_sign ref_libs alice_claims ''s3cret'' 3600 100)) =
   Json 200 [(''username'', JString ''alice''), (''email'', JString ''a@x.com'')]"
  using guard_example
  by (simp add: getUser_def getUser_handler_def env0_def truthy_def findById_def db1_def
      alice_def select_username_email_def del: append.simps)

theorem getUser_projects_username_email_witness:
  "status (getUser env0 ref_libs db1 200
     (Some (''Bearer '' @ jwt_sign ref_libs alice_claims ''s3cret'' 3600 100))) = 200 \<and>
   (\<exists>i u. authenticateJWT env0 ref_libs 200
       (Some (''Bearer '' @ jwt_sign ref_libs alice_claims ''s3cret'' 3600 100)) = Next i \<and>
     findById db1 i = Some u \<and>
     getUser env0 ref_libs db1 200
       (Some (''Bearer '' @ jwt_sign ref_libs alice_claims ''s3cret'' 3600 100)) =
       Json 200 [(''username'', JString (username u)), (''email'', JString (email u))] \<and>
     body_keys (getUser env0 ref_libs db1 200
       (Some (''Bearer '' @ jwt_sign ref_libs alice_claims ''s3cret'' 3600 100))) =
       [''username'', ''email''] \<and>
     ''password'' \<notin> set (body_keys (getUser env0 ref_libs db1 200
       (Some (''Bearer '' @ jwt_sign ref_libs alice_claims ''s3cret'' 3600 100)))))"
proof -
  have h: "status (getUser env0 ref_libs db1 200
     (Some (''Bearer '' @ jwt_sign ref_libs alice_claims ''s3cret'' 3600 100))) = 200"
    by (simp only: getUser_example status.simps)
  from getUser_projects_username_email [OF h] h show ?thesis
    by (intro conjI)
qed


section \<open>The store only grows\<close>

lemma register_grows:
  "fst (register env L db b) = db \<or>
   (\<exists>u. fst (register env L db b) = db\<lparr>users := users db @ [u], next_id := Suc (next_id db)\<rparr>)"
  by (auto simp: register_def save_def split: option.splits sum.splits if_splits)

lemma serve_grows: "\<exists>new. users (fst (serve env L db r)) = users db @ new"
proof (cases r)
  case (Register b)
  from register_grows [of env L db b] show ?thesis
  proof
    assume "fst (register env L db b) = db"
    then show ?thesis using Register by simp
  next
    assume "\<exists>u. fst (register env L db b) =
      db\<lparr>users := users db @ [u], next_id := Suc (next_id db)\<rparr>"
    then show ?thesis using Register by auto
  qed
qed simp_all

lemma serve_all_grows: "\<exists>new. users (fst (serve_all env L db rs)) = users db @ new"
proof (induction rs arbitrary: db)
  case Nil
  show ?case by simp
next
  case (Cons r rs)
  obtain db' resp where s: "serve env L db r = (db', resp)"
    by (cases "serve env L db r")
  obtain new1 where n1: "users db' = users db @ new1"
    using serve_grows [of env L db r] s by auto
  obtain db'' resps where a: "serve_all env L db' rs = (db'', resps)"
    by (cases "serve_all env L db' rs")
  obtain new2 where n2: "users db'' = users db' @ new2"
    using Cons.IH [of db'] a by auto
  have "users (fst (serve_all env L db (r # rs))) = users db @ (new1 @ new2)"
    using s a n1 n2 by simp
  then show ?case by blast
qed

text \<open>
  C8. Serving any sequence of Register, Login and GetProfile requests leaves every stored
  record in place and unchanged: the collection afterwards is the collection before with
  records appended. Login and GetProfile return the store as they got it; Register
  returns it as it got it or with exactly one record appended.
\<close>

theorem store_only_grows:
  "(\<exists>new. users (fst (serve_all env L db rs)) = users db @ new) \<and>
   fst (serve env L db (Login clock lb)) = db \<and>
   fst (serve env L db (GetProfile clock authorization)) = db \<and>
   (fst (serve env L db (Register b)) = db \<or>
    (\<exists>u. fst (serve env L db (Register b)) =
        db\<lparr>users := users db @ [u], next_id := Suc (next_id db)\<rparr>))"
  using serve_all_grows [of env L db rs] register_grows [of env L db b] by simp

theorem store_only_grows_witness:
  "\<exists>new. users (fst (serve_all env0 ref_libs db1
      [Login 100 \<lparr>login_username = Some ''alice'', login_password = Some ''p4ss''\<rparr>,
       Register \<lparr>reg_username = Some ''bob'', reg_password = Some ''pw'',
                 reg_email = Some ''b@x.com''\<rparr>,
       GetProfile 200 None])) = users db1 @ new"
  using store_only_grows [where env = env0 and L = ref_libs and db = db1
      and rs = "[Login 100 \<lparr>login_username = Some ''alice'', login_password = Some ''p4ss''\<rparr>,
       Register \<lparr>reg_username = Some ''bob'', reg_password = Some ''pw'',
                 reg_email = Some ''b@x.com''\<rparr>,
       GetProfile 200 None]"]
  by (rule conjunct1)

section \<open>Registration does not validate presence\<close>

text \<open>
  C10. Register has no presence check of its own. Its only 400 is the duplicate answer,
  given exactly when the duplicate query finds a record. With the password missing the
  request passes the store gate and the duplicate query and then fails in the hashing
  call, which surfaces as 500 "Failed to register user". With the store configured and
  no duplicate, any request whose username or email is missing or empty, or whose
  password is missing, is answered with that 500 and stores nothing.
\<close>

theorem register_no_presence_validation:
  "(status (snd (register env L db b)) = 400 \<longrightarrow>
      findOne_username_or_email db (reg_username b) (reg_email b) \<noteq> None \<and>
      snd (register env L db b) =
        Json 400 [(''error'', JString ''Username or email already exists'')]) \<and>
   (reg_password b = None \<longrightarrow>
      register env L db b =
        (db, if \<not> truthy (MONGO_URI env)
             then Json 503 [(''error'', JString ''Database not configured'')]
             else if findOne_username_or_email db (reg_username b) (reg_email b) \<noteq> None
             then Json 400 [(''error'', JString ''Username or email already exists'')]
             else Json 500 [(''error'', JString ''Failed to register user'')])) \<and>
   (truthy (MONGO_URI env) \<longrightarrow>
      findOne_username_or_email db (reg_username b) (reg_email b) = None \<longrightarrow>
      \<not> truthy (reg_username b) \<or> \<not> truthy (reg_email b) \<or> reg_password b = None \<longrightarrow>
      register env L db b = (db, Json 500 [(''error'', JString ''Failed to register user'')]))"
proof -
  have only_duplicates: "status (snd (register env L db b)) = 400 \<longrightarrow>
      findOne_username_or_email db (reg_username b) (reg_email b) \<noteq> None \<and>
      snd (register env L db b) =
        Json 400 [(''error'', JString ''Username or email already exists'')]"
    by (auto simp: register_def split: if_splits option.splits sum.splits)
  have no_password: "reg_password b = None \<longrightarrow>
      register env L db b =
        (db, if \<not> truthy (MONGO_URI env)
             then Json 503 [(''error'', JString ''Database not configured'')]
             else if findOne_username_or_email db (reg_username b) (reg_email b) \<noteq> None
             then Json 400 [(''error'', JString ''Username or email already exists'')]
             else Json 500 [(''error'', JString ''Failed to register user'')])"
    by (auto simp: register_def bcrypt_hash_call_def split: option.splits)
  have absent: "truthy (MONGO_URI env) \<longrightarrow>
      findOne_username_or_email db (reg_username b) (reg_email b) = None \<longrightarrow>
      \<not> truthy (reg_username b) \<or> \<not> truthy (reg_email b) \<or> reg_password b = None \<longrightarrow>
      register env L db b = (db, Json 500 [(''error'', JString ''Failed to register user'')])"
    by (auto simp: register_def bcrypt_hash_call_def save_def required_def
        split: option.splits sum.splits)
  show ?thesis
    using only_duplicates no_password absent by (intro conjI)
qed

theorem register_no_presence_validation_witness:
  "truthy (MONGO_URI env0) \<and>
   findOne_username_or_email db0 (Some ''alice'') (Some ''a@x.com'') = None \<and>
   register env0 ref_libs db0
     \<lparr>reg_username = Some ''alice'', reg_password = None, reg_email = Some ''a@x.com''\<rparr> =
     (db0, Json 500 [(''error'', JString ''Failed to register user'')]) \<and>
   findOne_username_or_email db0 None (Some ''a@x.com'') = None \<and>
   register env0 ref_libs db0
     \<lparr>reg_username = None, reg_password = Some ''p4ss'', reg_email = Some ''a@x.com''\<rparr> =
     (db0, Json 500 [(''error'', JString ''Failed to register user'')]) \<and>
   register env0 ref_libs db0
     \<lparr>reg_username = Some ''alice'', reg_password = Some ''p4ss'', reg_email = Some []\<rparr> =
     (db0, Json 500 [(''error'', JString ''Failed to register user'')])"
proof -
  have h: "findOne_username_or_email db0 (Some ''alice'') (Some ''a@x.com'') = None"
    "findOne_username_or_email db0 None (Some ''a@x.com'') = None"
    "findOne_username_or_email db0 (Some ''alice'') (Some []) = None"
    by (simp_all add: findOne_username_or_email_def db0_def)
  have t: "\<not> truthy None" "\<not> truthy (Some [])"
    by (simp_all add: truthy_def)
  have a: "register env0 ref_libs db0
     \<lparr>reg_username = Some ''alice'', reg_password = None, reg_email = Some ''a@x.com''\<rparr> =
     (db0, Json 500 [(''error'', JString ''Failed to register user'')])"
    using h env0_configured(1)
      register_no_presence_validation [where env = env0 and L = ref_libs and db = db0
        and b = "\<lparr>reg_username = Some ''alice'', reg_password = None,
                   reg_email = Some ''a@x.com''\<rparr>"]
    by simp
  have b: "register env0 ref_libs db0
     \<lparr>reg_username = None, reg_password = Some ''p4ss'', reg_email = Some ''a@x.com''\<rparr> =
     (db0, Json 500 [(''error'', JString ''Failed to register user'')])"
    using h t env0_configured(1)
      register_no_presence_validation [where env = env0 and L = ref_libs and db = db0
        and b = "\<lparr>reg_username = None, reg_password = Some ''p4ss'',
                   reg_email = Some ''a@x.com''\<rparr>"]
    by simp
  have c: "register env0 ref_libs db0
     \<lparr>reg_username = Some ''alice'', reg_password = Some ''p4ss'', reg_email = Some []\<rparr> =
     (db0, Json 500 [(''error'', JString ''Failed to register user'')])"
    using h t env0_configured(1)
      register_no_presence_validation [where env = env0 and L = ref_libs and db = db0
        and b = "\<lparr>reg_username = Some ''alice'', reg_password = Some ''p4ss'',
                   reg_email = Some []\<rparr>"]
    by simp
  show ?thesis
    using h(1,2) env0_configured(1) a b c by (intro conjI)
qed

end
